theory Spec2Isabelle
  imports Main
begin

section \<open>Python values and exceptions\<close>

text \<open>
  The values that cross the boundary between the role router and its collaborators:
  what \<open>crud\<close> returns, what a JSON request body parses to, and what a response body
  is built from. An object carries its class name, the result of its truth-value
  protocol (\<open>__bool__\<close>/\<open>__len__\<close>; \<open>True\<close> for a class that defines neither) and
  its attributes in definition order.
\<close>

datatype py_value =
    PyNone
  | PyBool bool
  | PyInt int
  | PyStr string
  | PyList "py_value list"
  | PyDict "(string \<times> py_value) list"
  | PyObject string bool "(string \<times> py_value) list"

text \<open>Python's truth test, as \<open>if not role\<close> applies it.\<close>

fun truthy :: "py_value \<Rightarrow> bool" where
  "truthy PyNone = False"
| "truthy (PyBool b) = b"
| "truthy (PyInt i) = (i \<noteq> 0)"
| "truthy (PyStr s) = (s \<noteq> [])"
| "truthy (PyList xs) = (xs \<noteq> [])"
| "truthy (PyDict kvs) = (kvs \<noteq> [])"
| "truthy (PyObject c t attrs) = t"

text \<open>
  Attribute access on an object and key access on a dict; any other value has none of
  the role's attributes.
\<close>

fun get_field :: "py_value \<Rightarrow> string \<Rightarrow> py_value option" where
  "get_field (PyDict kvs) k = map_of kvs k"
| "get_field (PyObject c t attrs) k = map_of attrs k"
| "get_field v k = None"

text \<open>
  An exception object raised by a collaborator: its class name, whether the class
  derives from \<open>Exception\<close> (as opposed to deriving from \<open>BaseException\<close> only, like
  \<open>SystemExit\<close>, \<open>KeyboardInterrupt\<close> and \<open>GeneratorExit\<close>), and the text \<open>str(e)\<close>
  yields. The collaborator is a persistence layer: its exceptions are taken not to be
  instances of the web framework's \<open>HTTPException\<close>, which only the handlers build.
\<close>

record py_exception =
  exc_class :: string
  isinstance_Exception :: bool
  exc_str :: string

text \<open>
  What leaves a handler when it does not return: an \<open>HTTPException\<close> built by the
  handler (status code, detail, and the \<open>__cause__\<close> set by \<open>raise ... from e\<close>), or
  a collaborator's exception that no \<open>except\<close> clause caught.
\<close>

datatype raised =
    HTTPException int string "py_exception option"
  | Propagated py_exception

datatype 'a outcome = Returned 'a | Raised raised

section \<open>The persistence collaborator\<close>

text \<open>
  \<open>crud = DatabaseManager()\<close> is imported from \<open>db.db_manager\<close>. The router uses four
  of its methods. Each call may change the collaborator's own state \<open>'s\<close> and either
  returns a value (\<open>Inr\<close>) or raises (\<open>Inl\<close>).
\<close>

record 's DatabaseManager =
  crud_create_role :: "string \<Rightarrow> int \<Rightarrow> 's \<Rightarrow> (py_exception + py_value) \<times> 's"
  crud_get_role :: "int \<Rightarrow> 's \<Rightarrow> (py_exception + py_value) \<times> 's"
  crud_get_role_by_name :: "string \<Rightarrow> 's \<Rightarrow> (py_exception + py_value) \<times> 's"
  crud_get_all_roles :: "'s \<Rightarrow> (py_exception + py_value) \<times> 's"

section \<open>Request and response models\<close>

record RoleCreate =
  role_name :: string
  level :: int

record RoleResponse =
  resp_id :: int
  resp_role_name :: string
  resp_level :: int

section \<open>The route handlers\<close>

text \<open>
  \<open>create_role\<close>: the call sits in \<open>try\<close>; \<open>except Exception as e\<close> catches the
  instances of \<open>Exception\<close> and re-raises them as \<open>HTTPException(status_code=400,
  detail=str(e)) from e\<close>. An exception that is not an instance of \<open>Exception\<close> matches
  no clause and leaves the handler as it is.
\<close>

definition create_role :: "'s DatabaseManager \<Rightarrow> RoleCreate \<Rightarrow> 's \<Rightarrow> py_value outcome \<times> 's" where
  "create_role crud role s =
     (case crud_create_role crud (role_name role) (level role) s of
        (Inr created, s') \<Rightarrow> (Returned created, s')
      | (Inl e, s') \<Rightarrow>
          (if isinstance_Exception e
           then (Raised (HTTPException 400 (exc_str e) (Some e)), s')
           else (Raised (Propagated e), s')))"

definition get_role :: "'s DatabaseManager \<Rightarrow> int \<Rightarrow> 's \<Rightarrow> py_value outcome \<times> 's" where
  "get_role crud role_id s =
     (case crud_get_role crud role_id s of
        (Inl e, s') \<Rightarrow> (Raised (Propagated e), s')
      | (Inr role, s') \<Rightarrow>
          (if \<not> truthy role
           then (Raised (HTTPException 404 ''Role not found'' None), s')
           else (Returned role, s')))"

definition get_role_by_name :: "'s DatabaseManager \<Rightarrow> string \<Rightarrow> 's \<Rightarrow> py_value outcome \<times> 's" where
  "get_role_by_name crud name s =
     (case crud_get_role_by_name crud name s of
        (Inl e, s') \<Rightarrow> (Raised (Propagated e), s')
      | (Inr role, s') \<Rightarrow>
          (if \<not> truthy role
           then (Raised (HTTPException 404 ''Role not found'' None), s')
           else (Returned role, s')))"

definition get_all_roles :: "'s DatabaseManager \<Rightarrow> 's \<Rightarrow> py_value outcome \<times> 's" where
  "get_all_roles crud s =
     (case crud_get_all_roles crud s of
        (Inl e, s') \<Rightarrow> (Raised (Propagated e), s')
      | (Inr roles, s') \<Rightarrow> (Returned roles, s'))"

section \<open>Schema validation and the routes\<close>

text \<open>
  The decorators and the two model classes configure what the web framework does around
  a handler. A field annotated \<open>int\<close> accepts a Python int as it is and a field
  annotated \<open>str\<close> accepts a Python str as it is, with no constraint on the value;
  whether a value of another kind is converted or refused is left to the validation
  library and is a parameter here.
\<close>

record coercion =
  coerce_int :: "py_value \<Rightarrow> int option"
  coerce_str :: "py_value \<Rightarrow> string option"

fun int_validator :: "coercion \<Rightarrow> py_value \<Rightarrow> int option" where
  "int_validator C (PyInt i) = Some i"
| "int_validator C v = coerce_int C v"

fun str_validator :: "coercion \<Rightarrow> py_value \<Rightarrow> string option" where
  "str_validator C (PyStr s) = Some s"
| "str_validator C v = coerce_str C v"

text \<open>The library that converts nothing: only an int is an int, only a str is a str.\<close>

definition strict :: coercion where
  "strict = \<lparr>coerce_int = (\<lambda>v. None), coerce_str = (\<lambda>v. None)\<rparr>"

text \<open>
  \<open>RoleCreate\<close> is built from the parsed JSON body, which has to be an object with the
  two required fields \<open>role_name: str\<close> and \<open>level: int\<close>.
\<close>

definition RoleCreate_validate :: "coercion \<Rightarrow> py_value \<Rightarrow> RoleCreate option" where
  "RoleCreate_validate C body =
     (case body of
        PyDict kvs \<Rightarrow>
          (case (map_of kvs ''role_name'', map_of kvs ''level'') of
             (Some a, Some b) \<Rightarrow>
               (case (str_validator C a, int_validator C b) of
                  (Some n, Some l) \<Rightarrow> Some \<lparr>role_name = n, level = l\<rparr>
                | _ \<Rightarrow> None)
           | _ \<Rightarrow> None)
      | _ \<Rightarrow> None)"

text \<open>
  \<open>RoleResponse\<close> has the three required fields \<open>id: int\<close>, \<open>role_name: str\<close> and
  \<open>level: int\<close>; with \<open>orm_mode = True\<close> they are read from the attributes of the
  returned object (or from the keys of a returned dict).
\<close>

definition RoleResponse_validate :: "coercion \<Rightarrow> py_value \<Rightarrow> RoleResponse option" where
  "RoleResponse_validate C v =
     (case (get_field v ''id'', get_field v ''role_name'', get_field v ''level'') of
        (Some a, Some b, Some c) \<Rightarrow>
          (case (int_validator C a, str_validator C b, int_validator C c) of
             (Some i, Some n, Some l) \<Rightarrow>
               Some \<lparr>resp_id = i, resp_role_name = n, resp_level = l\<rparr>
           | _ \<Rightarrow> None)
      | _ \<Rightarrow> None)"

text \<open>The JSON object a validated \<open>RoleResponse\<close> is sent as.\<close>

definition jsonable :: "RoleResponse \<Rightarrow> py_value" where
  "jsonable r =
     PyDict [(''id'', PyInt (resp_id r)),
             (''role_name'', PyStr (resp_role_name r)),
             (''level'', PyInt (resp_level r))]"

text \<open>
  What the client gets: a JSON response with a status code, the rejection of a request
  body that fails \<open>RoleCreate\<close> (before the handler runs), or the hosting server's
  default error handling, for an exception nothing handled and for a return value that
  fails the response model.
\<close>

datatype server_error = Unhandled py_exception | ResponseValidationError

datatype response =
    Response int py_value
  | RequestValidationError
  | ServerError server_error

definition on_raised :: "raised \<Rightarrow> response" where
  "on_raised x =
     (case x of
        HTTPException status_code detail cause \<Rightarrow>
          Response status_code (PyDict [(''detail'', PyStr detail)])
      | Propagated e \<Rightarrow> ServerError (Unhandled e))"

text \<open>\<open>response_model=RoleResponse\<close>\<close>

definition serialize_role :: "coercion \<Rightarrow> py_value outcome \<Rightarrow> response" where
  "serialize_role C out =
     (case out of
        Returned v \<Rightarrow>
          (case RoleResponse_validate C v of
             Some r \<Rightarrow> Response 200 (jsonable r)
           | None \<Rightarrow> ServerError ResponseValidationError)
      | Raised x \<Rightarrow> on_raised x)"

text \<open>\<open>response_model=List[RoleResponse]\<close>\<close>

definition serialize_roles :: "coercion \<Rightarrow> py_value outcome \<Rightarrow> response" where
  "serialize_roles C out =
     (case out of
        Returned (PyList vs) \<Rightarrow>
          (case those (map (RoleResponse_validate C) vs) of
             Some rs \<Rightarrow> Response 200 (PyList (map jsonable rs))
           | None \<Rightarrow> ServerError ResponseValidationError)
      | Returned v \<Rightarrow> ServerError ResponseValidationError
      | Raised x \<Rightarrow> on_raised x)"

text \<open>\<open>@role_router.post("/", response_model=RoleResponse)\<close>\<close>

definition POST_roles :: "coercion \<Rightarrow> 's DatabaseManager \<Rightarrow> py_value \<Rightarrow> 's \<Rightarrow> response \<times> 's" where
  "POST_roles C crud body s =
     (case RoleCreate_validate C body of
        None \<Rightarrow> (RequestValidationError, s)
      | Some role \<Rightarrow>
          (case create_role crud role s of (out, s') \<Rightarrow> (serialize_role C out, s')))"

text \<open>\<open>@role_router.get("/{role_id}", response_model=RoleResponse)\<close>\<close>

definition GET_roles_id :: "coercion \<Rightarrow> 's DatabaseManager \<Rightarrow> int \<Rightarrow> 's \<Rightarrow> response \<times> 's" where
  "GET_roles_id C crud role_id s =
     (case get_role crud role_id s of (out, s') \<Rightarrow> (serialize_role C out, s'))"

text \<open>\<open>@role_router.get("/name/{role_name}", response_model=RoleResponse)\<close>\<close>

definition GET_roles_name :: "coercion \<Rightarrow> 's DatabaseManager \<Rightarrow> string \<Rightarrow> 's \<Rightarrow> response \<times> 's" where
  "GET_roles_name C crud name s =
     (case get_role_by_name crud name s of (out, s') \<Rightarrow> (serialize_role C out, s'))"

text \<open>\<open>@role_router.get("/", response_model=List[RoleResponse])\<close>\<close>

definition GET_roles :: "coercion \<Rightarrow> 's DatabaseManager \<Rightarrow> 's \<Rightarrow> response \<times> 's" where
  "GET_roles C crud s =
     (case get_all_roles crud s of (out, s') \<Rightarrow> (serialize_roles C out, s'))"

section \<open>Observing the delegated calls\<close>

text \<open>
  A collaborator wrapped so that every call made to it is appended to a log kept beside
  its state. The wrapped collaborator answers as the original does.
\<close>

datatype call =
    Call_create_role string int
  | Call_get_role int
  | Call_get_role_by_name string
  | Call_get_all_roles

definition logged :: "'s DatabaseManager \<Rightarrow> ('s \<times> call list) DatabaseManager" where
  "logged crud =
     \<lparr>crud_create_role = (\<lambda>n l (s, log).
        case crud_create_role crud n l s of (r, s') \<Rightarrow> (r, (s', log @ [Call_create_role n l]))),
      crud_get_role = (\<lambda>i (s, log).
        case crud_get_role crud i s of (r, s') \<Rightarrow> (r, (s', log @ [Call_get_role i]))),
      crud_get_role_by_name = (\<lambda>n (s, log).
        case crud_get_role_by_name crud n s of (r, s') \<Rightarrow> (r, (s', log @ [Call_get_role_by_name n]))),
      crud_get_all_roles = (\<lambda>(s, log).
        case crud_get_all_roles crud s of (r, s') \<Rightarrow> (r, (s', log @ [Call_get_all_roles])))\<rparr>"

section \<open>Example collaborators\<close>

text \<open>
  Modelled from the spec: the class \<open>DatabaseManager\<close> (module \<open>db.db_manager\<close>) is not
  among the sources. The spec gives its interface: \<open>create_role(name, level)\<close> returns
  the created Role with a system-assigned unique id, \<open>get_role(id)\<close> and
  \<open>get_role_by_name(name)\<close> return the Role or an empty result, \<open>get_all_roles()\<close>
  returns the sequence of Roles. This in-memory stand-in keeps the roles in creation
  order and assigns the ids 1, 2, 3, ...; an entity is an object of the class the
  handlers' docstrings name, \<open>RoleHierarchy\<close>, with the attributes \<open>id\<close>,
  \<open>role_name\<close>, \<open>level\<close> and the mapper's bookkeeping attribute.
\<close>

definition entity :: "int \<Rightarrow> string \<Rightarrow> int \<Rightarrow> py_value" where
  "entity i n l =
     PyObject ''RoleHierarchy'' True
       [(''_sa_instance_state'', PyNone), (''id'', PyInt i), (''role_name'', PyStr n), (''level'', PyInt l)]"

definition or_none :: "py_value option \<Rightarrow> py_value" where
  "or_none x = (case x of None \<Rightarrow> PyNone | Some v \<Rightarrow> v)"

definition mem_db :: "(py_value list) DatabaseManager" where
  "mem_db =
     \<lparr>crud_create_role = (\<lambda>n l roles.
        (Inr (entity (int (length roles) + 1) n l),
         roles @ [entity (int (length roles) + 1) n l])),
      crud_get_role = (\<lambda>i roles.
        (Inr (or_none (find (\<lambda>r. get_field r ''id'' = Some (PyInt i)) roles)), roles)),
      crud_get_role_by_name = (\<lambda>n roles.
        (Inr (or_none (find (\<lambda>r. get_field r ''role_name'' = Some (PyStr n)) roles)), roles)),
      crud_get_all_roles = (\<lambda>roles. (Inr (PyList roles), roles))\<rparr>"

text \<open>A collaborator every call of which raises the given exception.\<close>

definition failing_db :: "py_exception \<Rightarrow> unit DatabaseManager" where
  "failing_db e =
     \<lparr>crud_create_role = (\<lambda>n l s. (Inl e, s)),
      crud_get_role = (\<lambda>i s. (Inl e, s)),
      crud_get_role_by_name = (\<lambda>n s. (Inl e, s)),
      crud_get_all_roles = (\<lambda>s. (Inl e, s))\<rparr>"

definition integrity_error :: py_exception where
  "integrity_error =
     \<lparr>exc_class = ''IntegrityError'', isinstance_Exception = True,
      exc_str = ''UNIQUE constraint failed: roles.role_name''\<rparr>"

definition system_exit :: py_exception where
  "system_exit =
     \<lparr>exc_class = ''SystemExit'', isinstance_Exception = False, exc_str = ''1''\<rparr>"

section \<open>Auxiliary facts\<close>

lemma logged_create_role [simp]:
  "crud_create_role (logged crud) n l (s, log) =
     (fst (crud_create_role crud n l s),
      (snd (crud_create_role crud n l s), log @ [Call_create_role n l]))"
  by (simp add: logged_def split: prod.splits)

lemma logged_get_role [simp]:
  "crud_get_role (logged crud) i (s, log) =
     (fst (crud_get_role crud i s),
      (snd (crud_get_role crud i s), log @ [Call_get_role i]))"
  by (simp add: logged_def split: prod.splits)

lemma logged_get_role_by_name [simp]:
  "crud_get_role_by_name (logged crud) n (s, log) =
     (fst (crud_get_role_by_name crud n s),
      (snd (crud_get_role_by_name crud n s), log @ [Call_get_role_by_name n]))"
  by (simp add: logged_def split: prod.splits)

lemma logged_get_all_roles [simp]:
  "crud_get_all_roles (logged crud) (s, log) =
     (fst (crud_get_all_roles crud s),
      (snd (crud_get_all_roles crud s), log @ [Call_get_all_roles]))"
  by (simp add: logged_def split: prod.splits)

lemma mem_db_simps [simp]:
  "crud_create_role mem_db n l roles =
     (Inr (entity (int (length roles) + 1) n l), roles @ [entity (int (length roles) + 1) n l])"
  "crud_get_role mem_db i roles =
     (Inr (or_none (find (\<lambda>r. get_field r ''id'' = Some (PyInt i)) roles)), roles)"
  "crud_get_role_by_name mem_db n roles =
     (Inr (or_none (find (\<lambda>r. get_field r ''role_name'' = Some (PyStr n)) roles)), roles)"
  "crud_get_all_roles mem_db roles = (Inr (PyList roles), roles)"
  by (simp_all add: mem_db_def)

lemma failing_db_simps [simp]:
  "crud_create_role (failing_db e) n l s = (Inl e, s)"
  "crud_get_role (failing_db e) i s = (Inl e, s)"
  "crud_get_role_by_name (failing_db e) n s = (Inl e, s)"
  "crud_get_all_roles (failing_db e) s = (Inl e, s)"
  by (simp_all add: failing_db_def)

lemma entity_fields [simp]:
  "get_field (entity i n l) ''id'' = Some (PyInt i)"
  "get_field (entity i n l) ''role_name'' = Some (PyStr n)"
  "get_field (entity i n l) ''level'' = Some (PyInt l)"
  "truthy (entity i n l)"
  by (simp_all add: entity_def)

lemma RoleResponse_validate_entity [simp]:
  "RoleResponse_validate C (entity i n l) =
     Some \<lparr>resp_id = i, resp_role_name = n, resp_level = l\<rparr>"
  by (simp add: RoleResponse_validate_def)

lemma RoleCreate_validate_typed [simp]:
  "RoleCreate_validate C (PyDict [(''role_name'', PyStr n), (''level'', PyInt l)]) =
     Some \<lparr>role_name = n, level = l\<rparr>"
  by (simp add: RoleCreate_validate_def)

lemma those_map_Some [simp]: "those (map Some xs) = Some xs"
  by (induction xs) simp_all

lemma those_append_None [simp]: "those (xs @ None # ys) = None"
  by (induction xs) (simp_all split: option.splits)

lemma serialize_role_200:
  "serialize_role C out = Response 200 b \<Longrightarrow>
     (\<exists>d c. out = Raised (HTTPException 200 d c)) \<or>
     (\<exists>i n l. b = PyDict [(''id'', PyInt i), (''role_name'', PyStr n), (''level'', PyInt l)])"
  by (auto simp: serialize_role_def on_raised_def jsonable_def
           split: outcome.splits option.splits raised.splits)

lemma create_role_not_200: "fst (create_role crud role s) \<noteq> Raised (HTTPException 200 d c)"
  by (simp add: create_role_def split: prod.splits sum.splits)

lemma get_role_not_200: "fst (get_role crud i s) \<noteq> Raised (HTTPException 200 d c)"
  by (simp add: get_role_def split: prod.splits sum.splits)

lemma get_role_by_name_not_200: "fst (get_role_by_name crud n s) \<noteq> Raised (HTTPException 200 d c)"
  by (simp add: get_role_by_name_def split: prod.splits sum.splits)

lemma serialize_roles_200:
  "serialize_roles C out = Response 200 b \<Longrightarrow>
     (\<exists>d c. out = Raised (HTTPException 200 d c)) \<or> (\<exists>rs. b = PyList (map jsonable rs))"
  by (auto simp: serialize_roles_def on_raised_def
           split: outcome.splits option.splits raised.splits py_value.splits)

lemma get_all_roles_not_http: "fst (get_all_roles crud s) \<noteq> Raised (HTTPException k d c)"
  by (simp add: get_all_roles_def split: prod.splits sum.splits)

lemma POST_roles_200:
  assumes "fst (POST_roles C crud body s) = Response 200 b"
  shows "\<exists>role. serialize_role C (fst (create_role crud role s)) = Response 200 b"
proof (cases "RoleCreate_validate C body")
  case None
  with assms show ?thesis
    by (simp add: POST_roles_def)
next
  case (Some role)
  with assms have "serialize_role C (fst (create_role crud role s)) = Response 200 b"
    by (simp add: POST_roles_def split: prod.splits)
  then show ?thesis ..
qed

section \<open>Errors of the create operation\<close>

text \<open>
  Claim C1, as amended. If the collaborator's create call raises an exception that is
  an instance of \<open>Exception\<close>, \<open>create_role\<close> raises \<open>HTTPException\<close> with status
  400 and the detail \<open>str(e)\<close>, whatever the class of the exception, and the route
  answers 400 with that detail. An exception that derives from \<open>BaseException\<close> only
  is not caught by \<open>except Exception\<close> and leaves the handler unchanged.
\<close>

theorem create_role_maps_Exception_to_400:
  assumes "crud_create_role crud (role_name role) (level role) s = (Inl e, s')"
  shows "create_role crud role s =
           (if isinstance_Exception e
            then (Raised (HTTPException 400 (exc_str e) (Some e)), s')
            else (Raised (Propagated e), s'))
         \<and> (isinstance_Exception e \<longrightarrow>
              POST_roles C crud
                (PyDict [(''role_name'', PyStr (role_name role)), (''level'', PyInt (level role))]) s =
                (Response 400 (PyDict [(''detail'', PyStr (exc_str e))]), s'))"
  using assms
  by (simp add: create_role_def POST_roles_def serialize_role_def on_raised_def)

theorem create_role_maps_Exception_to_400_witness:
  "crud_create_role (failing_db integrity_error) ''admin'' 1 () = (Inl integrity_error, ())
   \<and> isinstance_Exception integrity_error
   \<and> create_role (failing_db integrity_error) \<lparr>role_name = ''admin'', level = 1\<rparr> () =
       (Raised (HTTPException 400 ''UNIQUE constraint failed: roles.role_name''
                  (Some integrity_error)), ())
   \<and> POST_roles strict (failing_db integrity_error)
         (PyDict [(''role_name'', PyStr ''admin''), (''level'', PyInt 1)]) () =
       (Response 400
          (PyDict [(''detail'', PyStr ''UNIQUE constraint failed: roles.role_name'')]), ())"
proof -
  have h: "crud_create_role (failing_db integrity_error)
             (role_name \<lparr>role_name = ''admin'', level = 1\<rparr>)
             (level \<lparr>role_name = ''admin'', level = 1\<rparr>) () = (Inl integrity_error, ())"
    by simp
  have i: "isinstance_Exception integrity_error"
    by (simp add: integrity_error_def)
  have t: "exc_str integrity_error = ''UNIQUE constraint failed: roles.role_name''"
    by (simp add: integrity_error_def)
  show ?thesis
    using create_role_maps_Exception_to_400 [OF h, of strict] i t by simp
qed

text \<open>
  Claim C1 as stated fails: when the collaborator's create call raises \<open>SystemExit\<close>,
  \<open>create_role\<close> raises no \<open>HTTPException\<close>; the \<open>SystemExit\<close> leaves the handler.
\<close>

theorem create_role_SystemExit_counterexample:
  "crud_create_role (failing_db system_exit) ''admin'' 1 () = (Inl system_exit, ())
   \<and> create_role (failing_db system_exit) \<lparr>role_name = ''admin'', level = 1\<rparr> () =
       (Raised (Propagated system_exit), ())
   \<and> create_role (failing_db system_exit) \<lparr>role_name = ''admin'', level = 1\<rparr> () \<noteq>
       (Raised (HTTPException 400 (exc_str system_exit) (Some system_exit)), ())"
  by (simp add: create_role_def system_exit_def)

section \<open>The two lookups\<close>

text \<open>
  Claim C2. When the collaborator's lookup returns a value, \<open>get_role\<close> raises
  \<open>HTTPException\<close> 404 with the detail "Role not found" if and only if that value is
  falsy, and returns that very value otherwise; \<open>get_role_by_name\<close> does the same
  with the lookup by name, so the two handlers agree whenever the two lookups do.
\<close>

theorem lookup_404_iff_falsy:
  assumes "crud_get_role crud role_id s = (Inr role, s')"
    and "crud_get_role_by_name crud name t = (Inr role', t')"
  shows "(get_role crud role_id s = (Raised (HTTPException 404 ''Role not found'' None), s')
            \<longleftrightarrow> \<not> truthy role)
       \<and> (truthy role \<longrightarrow> get_role crud role_id s = (Returned role, s'))
       \<and> (get_role_by_name crud name t = (Raised (HTTPException 404 ''Role not found'' None), t')
            \<longleftrightarrow> \<not> truthy role')
       \<and> (truthy role' \<longrightarrow> get_role_by_name crud name t = (Returned role', t'))
       \<and> ((role, s') = (role', t') \<longrightarrow> get_role crud role_id s = get_role_by_name crud name t)"
  using assms by (simp add: get_role_def get_role_by_name_def)

theorem lookup_404_iff_falsy_witness:
  "crud_get_role mem_db 1 [entity 1 ''admin'' 1] = (Inr (entity 1 ''admin'' 1), [entity 1 ''admin'' 1])
   \<and> crud_get_role_by_name mem_db ''admin'' [entity 1 ''admin'' 1] =
       (Inr (entity 1 ''admin'' 1), [entity 1 ''admin'' 1])
   \<and> truthy (entity 1 ''admin'' 1)
   \<and> get_role mem_db 1 [entity 1 ''admin'' 1] = (Returned (entity 1 ''admin'' 1), [entity 1 ''admin'' 1])
   \<and> get_role_by_name mem_db ''admin'' [entity 1 ''admin'' 1] =
       (Returned (entity 1 ''admin'' 1), [entity 1 ''admin'' 1])
   \<and> get_role mem_db 1 [entity 1 ''admin'' 1] = get_role_by_name mem_db ''admin'' [entity 1 ''admin'' 1]"
proof -
  have h1: "crud_get_role mem_db 1 [entity 1 ''admin'' 1] =
              (Inr (entity 1 ''admin'' 1), [entity 1 ''admin'' 1])"
    by (simp add: or_none_def)
  have h2: "crud_get_role_by_name mem_db ''admin'' [entity 1 ''admin'' 1] =
              (Inr (entity 1 ''admin'' 1), [entity 1 ''admin'' 1])"
    by (simp add: or_none_def)
  show ?thesis
    using lookup_404_iff_falsy [OF h1 h2] h1 h2 by simp
qed

section \<open>Successful creation\<close>

text \<open>
  Claim C3. When \<open>create_role\<close> returns, the collaborator's create operation was called
  with the request's \<open>role_name\<close> and \<open>level\<close> as they were supplied, and the value
  returned is the entity that call returned, with all its attributes (its \<open>id\<close>
  among them).
\<close>

theorem create_role_success_delegates:
  assumes "create_role (logged crud) role (s, log) = (Returned created, (s', log'))"
  shows "log' = log @ [Call_create_role (role_name role) (level role)]
       \<and> crud_create_role crud (role_name role) (level role) s = (Inr created, s')"
  using assms
  by (cases "crud_create_role crud (role_name role) (level role) s")
     (auto simp: create_role_def split: sum.splits if_splits)

theorem create_role_success_delegates_witness:
  "create_role (logged mem_db) \<lparr>role_name = ''admin'', level = 1\<rparr> ([], []) =
     (Returned (entity 1 ''admin'' 1), ([entity 1 ''admin'' 1], [Call_create_role ''admin'' 1]))
   \<and> crud_create_role mem_db ''admin'' 1 [] = (Inr (entity 1 ''admin'' 1), [entity 1 ''admin'' 1])
   \<and> get_field (entity 1 ''admin'' 1) ''id'' = Some (PyInt 1)"
proof -
  have h: "create_role (logged mem_db) \<lparr>role_name = ''admin'', level = 1\<rparr> ([], []) =
     (Returned (entity 1 ''admin'' 1), ([entity 1 ''admin'' 1], [Call_create_role ''admin'' 1]))"
    by (simp add: create_role_def)
  show ?thesis
    using create_role_success_delegates [OF h] h by simp
qed

section \<open>Create, then fetch by the returned id\<close>

text \<open>
  Claim C4. Take any \<open>role_name\<close> \<open>n\<close> and \<open>level\<close> \<open>l\<close>, and a collaborator that
  stores what it is given: its create call returns an entity that is a valid Role, and
  its lookup by that Role's id finds an entity with the \<open>role_name\<close> \<open>n\<close> and the
  \<open>level\<close> \<open>l\<close>. Then posting \<open>n\<close> and \<open>l\<close> answers 200 with that Role, and getting
  the role by the id in that answer yields 200 with a Role whose \<open>role_name\<close> is \<open>n\<close> and
  whose \<open>level\<close> is \<open>l\<close>.
\<close>

theorem create_then_get_round_trip:
  assumes "crud_create_role crud n l s = (Inr created, s1)"
    and "RoleResponse_validate C created = Some r"
    and "crud_get_role crud (resp_id r) s1 = (Inr stored, s2)"
    and "truthy stored"
    and "get_field stored ''id'' = Some (PyInt j)"
    and "get_field stored ''role_name'' = Some (PyStr n)"
    and "get_field stored ''level'' = Some (PyInt l)"
  shows "POST_roles C crud (PyDict [(''role_name'', PyStr n), (''level'', PyInt l)]) s =
           (Response 200 (jsonable r), s1)
       \<and> get_field (jsonable r) ''id'' = Some (PyInt (resp_id r))
       \<and> get_role crud (resp_id r) s1 = (Returned stored, s2)
       \<and> GET_roles_id C crud (resp_id r) s1 =
           (Response 200
              (PyDict [(''id'', PyInt j), (''role_name'', PyStr n), (''level'', PyInt l)]), s2)"
  using assms
  by (simp add: POST_roles_def create_role_def GET_roles_id_def get_role_def
                serialize_role_def RoleResponse_validate_def jsonable_def)

theorem create_then_get_round_trip_witness:
  "crud_create_role mem_db ''admin'' 1 [] = (Inr (entity 1 ''admin'' 1), [entity 1 ''admin'' 1])
   \<and> POST_roles strict mem_db (PyDict [(''role_name'', PyStr ''admin''), (''level'', PyInt 1)]) [] =
       (Response 200
          (PyDict [(''id'', PyInt 1), (''role_name'', PyStr ''admin''), (''level'', PyInt 1)]),
        [entity 1 ''admin'' 1])
   \<and> GET_roles_id strict mem_db 1 [entity 1 ''admin'' 1] =
       (Response 200
          (PyDict [(''id'', PyInt 1), (''role_name'', PyStr ''admin''), (''level'', PyInt 1)]),
        [entity 1 ''admin'' 1])"
proof -
  have h1: "crud_create_role mem_db ''admin'' 1 [] =
              (Inr (entity 1 ''admin'' 1), [entity 1 ''admin'' 1])"
    by simp
  have h2: "RoleResponse_validate strict (entity 1 ''admin'' 1) =
              Some \<lparr>resp_id = 1, resp_role_name = ''admin'', resp_level = 1\<rparr>"
    by simp
  have h3: "crud_get_role mem_db (resp_id \<lparr>resp_id = 1, resp_role_name = ''admin'', resp_level = 1\<rparr>)
              [entity 1 ''admin'' 1] = (Inr (entity 1 ''admin'' 1), [entity 1 ''admin'' 1])"
    by (simp add: or_none_def)
  have h4: "truthy (entity 1 ''admin'' 1)"
    and h5: "get_field (entity 1 ''admin'' 1) ''id'' = Some (PyInt 1)"
    and h6: "get_field (entity 1 ''admin'' 1) ''role_name'' = Some (PyStr ''admin'')"
    and h7: "get_field (entity 1 ''admin'' 1) ''level'' = Some (PyInt 1)"
    by simp_all
  show ?thesis
    using create_then_get_round_trip [OF h1 h2 h3 h4 h5 h6 h7] h1
    by (simp add: jsonable_def)
qed

section \<open>Exceptions of the lookups and of the listing\<close>

text \<open>
  Claim C5. An exception raised by the collaborator during \<open>get_role\<close>,
  \<open>get_role_by_name\<close> or \<open>get_all_roles\<close> leaves the handler as it was raised: the
  handler maps it to no \<open>HTTPException\<close>, and the route hands it to the hosting
  server's error handling.
\<close>

theorem lookup_and_list_exceptions_propagate:
  "(crud_get_role crud role_id s = (Inl e1, s1) \<longrightarrow>
      get_role crud role_id s = (Raised (Propagated e1), s1)
      \<and> GET_roles_id C crud role_id s = (ServerError (Unhandled e1), s1))
   \<and> (crud_get_role_by_name crud name t = (Inl e2, t2) \<longrightarrow>
      get_role_by_name crud name t = (Raised (Propagated e2), t2)
      \<and> GET_roles_name C crud name t = (ServerError (Unhandled e2), t2))
   \<and> (crud_get_all_roles crud u = (Inl e3, u3) \<longrightarrow>
      get_all_roles crud u = (Raised (Propagated e3), u3)
      \<and> GET_roles C crud u = (ServerError (Unhandled e3), u3))"
  by (simp add: get_role_def get_role_by_name_def get_all_roles_def
                GET_roles_id_def GET_roles_name_def GET_roles_def
                serialize_role_def serialize_roles_def on_raised_def)

theorem lookup_and_list_exceptions_propagate_witness:
  "crud_get_role (failing_db integrity_error) 7 () = (Inl integrity_error, ())
   \<and> crud_get_role_by_name (failing_db integrity_error) ''admin'' () = (Inl integrity_error, ())
   \<and> crud_get_all_roles (failing_db integrity_error) () = (Inl integrity_error, ())
   \<and> get_role (failing_db integrity_error) 7 () = (Raised (Propagated integrity_error), ())
   \<and> get_role_by_name (failing_db integrity_error) ''admin'' () =
       (Raised (Propagated integrity_error), ())
   \<and> get_all_roles (failing_db integrity_error) () = (Raised (Propagated integrity_error), ())
   \<and> GET_roles_id strict (failing_db integrity_error) 7 () =
       (ServerError (Unhandled integrity_error), ())"
  using lookup_and_list_exceptions_propagate
          [of "failing_db integrity_error" 7 "()" integrity_error "()" strict
              "''admin''" "()" integrity_error "()" "()" integrity_error "()"]
  by simp

section \<open>Schema validation of the create request\<close>

text \<open>
  Claim C6, as amended. Schema validation runs before the handler: a request body that
  fails \<open>RoleCreate\<close> is rejected and nothing is delegated to the collaborator. What
  \<open>RoleCreate\<close> asks of \<open>role_name\<close> is that it is present and a string; it asks
  nothing of its length, so a body whose \<open>role_name\<close> is the empty string (and whose
  \<open>level\<close> is an int) is accepted and delegated with the empty name.
\<close>

theorem schema_validation_precedes_delegation:
  "(RoleCreate_validate C body = None \<longrightarrow>
      POST_roles C (logged crud) body (s, log) = (RequestValidationError, (s, log)))
   \<and> RoleCreate_validate C (PyDict [(''role_name'', PyStr ''''), (''level'', PyInt l)]) =
       Some \<lparr>role_name = '''', level = l\<rparr>
   \<and> snd (snd (POST_roles C (logged crud)
                  (PyDict [(''role_name'', PyStr ''''), (''level'', PyInt l)]) (s, log))) =
       log @ [Call_create_role '''' l]"
  by (simp add: POST_roles_def create_role_def split: prod.splits sum.splits)

theorem schema_validation_precedes_delegation_witness:
  "RoleCreate_validate strict (PyDict [(''level'', PyInt 1)]) = None
   \<and> POST_roles strict (logged mem_db) (PyDict [(''level'', PyInt 1)]) ([], []) =
       (RequestValidationError, ([], []))
   \<and> snd (snd (POST_roles strict (logged mem_db)
                  (PyDict [(''role_name'', PyStr ''''), (''level'', PyInt 1)]) ([], []))) =
       [] @ [Call_create_role '''' 1]"
proof -
  have h: "RoleCreate_validate strict (PyDict [(''level'', PyInt 1)]) = None"
    by (simp add: RoleCreate_validate_def)
  show ?thesis
    using schema_validation_precedes_delegation
            [of strict "PyDict [(''level'', PyInt 1)]" mem_db "[]" "[]" 1] h
    by simp
qed

text \<open>
  Claim C6 as stated fails: the request \<open>{"role_name": "", "level": 1}\<close> is not
  rejected. It is delegated to the collaborator, which creates the role with the empty
  name, and the route answers 200.
\<close>

theorem empty_role_name_counterexample:
  "POST_roles strict (logged mem_db)
     (PyDict [(''role_name'', PyStr ''''), (''level'', PyInt 1)]) ([], []) =
     (Response 200 (PyDict [(''id'', PyInt 1), (''role_name'', PyStr ''''), (''level'', PyInt 1)]),
      ([entity 1 '''' 1], [Call_create_role '''' 1]))"
  by (simp add: POST_roles_def create_role_def serialize_role_def jsonable_def)

section \<open>Listing\<close>

text \<open>
  Claim C7. When the collaborator's list-all call returns, \<open>get_all_roles\<close> returns the
  very value it returned, the empty list included. The route sends one body per
  element, in the collaborator's order: element \<open>k\<close> of the answer is the Role read from
  element \<open>k\<close> of the collaborator's list.
\<close>

theorem get_all_roles_returns_collaborator_sequence:
  assumes "crud_get_all_roles crud s = (Inr roles, s')"
  shows "get_all_roles crud s = (Returned roles, s')
       \<and> (roles = PyList [] \<longrightarrow> GET_roles C crud s = (Response 200 (PyList []), s'))
       \<and> (roles = PyList vs \<and> map (RoleResponse_validate C) vs = map Some rs \<longrightarrow>
            GET_roles C crud s = (Response 200 (PyList (map jsonable rs)), s'))"
  using assms
  by (simp add: get_all_roles_def GET_roles_def serialize_roles_def)

theorem get_all_roles_returns_collaborator_sequence_witness:
  "crud_get_all_roles mem_db [entity 1 ''admin'' 1, entity 2 ''guest'' 0] =
     (Inr (PyList [entity 1 ''admin'' 1, entity 2 ''guest'' 0]),
      [entity 1 ''admin'' 1, entity 2 ''guest'' 0])
   \<and> get_all_roles mem_db [entity 1 ''admin'' 1, entity 2 ''guest'' 0] =
       (Returned (PyList [entity 1 ''admin'' 1, entity 2 ''guest'' 0]),
        [entity 1 ''admin'' 1, entity 2 ''guest'' 0])
   \<and> GET_roles strict mem_db [entity 1 ''admin'' 1, entity 2 ''guest'' 0] =
       (Response 200
          (PyList
             [PyDict [(''id'', PyInt 1), (''role_name'', PyStr ''admin''), (''level'', PyInt 1)],
              PyDict [(''id'', PyInt 2), (''role_name'', PyStr ''guest''), (''level'', PyInt 0)]]),
        [entity 1 ''admin'' 1, entity 2 ''guest'' 0])"
proof -
  have h: "crud_get_all_roles mem_db [entity 1 ''admin'' 1, entity 2 ''guest'' 0] =
     (Inr (PyList [entity 1 ''admin'' 1, entity 2 ''guest'' 0]),
      [entity 1 ''admin'' 1, entity 2 ''guest'' 0])"
    by simp
  have v: "map (RoleResponse_validate strict) [entity 1 ''admin'' 1, entity 2 ''guest'' 0] =
             map Some [\<lparr>resp_id = 1, resp_role_name = ''admin'', resp_level = 1\<rparr>,
                       \<lparr>resp_id = 2, resp_role_name = ''guest'', resp_level = 0\<rparr>]"
    by simp
  show ?thesis
    using get_all_roles_returns_collaborator_sequence
            [OF h, where C = strict and vs = "[entity 1 ''admin'' 1, entity 2 ''guest'' 0]"
               and rs = "[\<lparr>resp_id = 1, resp_role_name = ''admin'', resp_level = 1\<rparr>,
                          \<lparr>resp_id = 2, resp_role_name = ''guest'', resp_level = 0\<rparr>]"] h v
    by (simp add: jsonable_def)
qed

section \<open>No validation of the level\<close>

text \<open>
  Claim C8. For every int \<open>level\<close>, zero and the negative ones included, and every
  \<open>role_name\<close>, \<open>create_role\<close> calls the collaborator's create operation with that
  \<open>role_name\<close> and that \<open>level\<close>, from the handler and from the route alike; the
  outcome is decided by the collaborator's answer alone, and a repeated request is
  forwarded again.
\<close>

theorem create_role_forwards_any_level:
  "snd (snd (create_role (logged crud) \<lparr>role_name = n, level = l\<rparr> (s, log))) =
     log @ [Call_create_role n l]
   \<and> snd (snd (POST_roles C (logged crud)
                  (PyDict [(''role_name'', PyStr n), (''level'', PyInt l)]) (s, log))) =
       log @ [Call_create_role n l]
   \<and> fst (create_role crud \<lparr>role_name = n, level = l\<rparr> s) =
       (case fst (crud_create_role crud n l s) of
          Inr created \<Rightarrow> Returned created
        | Inl e \<Rightarrow>
            Raised (if isinstance_Exception e
                    then HTTPException 400 (exc_str e) (Some e) else Propagated e))
   \<and> snd (snd (create_role (logged crud) \<lparr>role_name = n, level = l\<rparr>
                  (snd (create_role (logged crud) \<lparr>role_name = n, level = l\<rparr> (s, log))))) =
       log @ [Call_create_role n l, Call_create_role n l]"
  by (simp add: POST_roles_def create_role_def split: prod.splits sum.splits)

theorem create_role_forwards_any_level_witness:
  "snd (snd (create_role (logged mem_db) \<lparr>role_name = ''root'', level = 0\<rparr> ([], []))) =
     [Call_create_role ''root'' 0]
   \<and> snd (snd (POST_roles strict (logged mem_db)
                  (PyDict [(''role_name'', PyStr ''root''), (''level'', PyInt (- 3))]) ([], []))) =
       [Call_create_role ''root'' (- 3)]"
  using create_role_forwards_any_level [of mem_db "''root''" 0 "[]" "[]" strict]
        create_role_forwards_any_level [of mem_db "''root''" "- 3" "[]" "[]" strict]
  by simp

section \<open>One delegated call per request\<close>

text \<open>
  Claim C9. Each of the four handlers makes exactly one call to the collaborator: run
  against a collaborator that logs its calls, the handler gives the outcome it gives
  without the log, leaves the collaborator in the state that one call leaves it in, and
  appends exactly that one call to the log. A handler reads and writes nothing but the
  request and the collaborator.
\<close>

theorem one_delegated_call_per_request:
  "create_role (logged crud) role (s, log) =
     (fst (create_role crud role s),
      (snd (crud_create_role crud (role_name role) (level role) s),
       log @ [Call_create_role (role_name role) (level role)]))
   \<and> get_role (logged crud) role_id (s, log) =
       (fst (get_role crud role_id s),
        (snd (crud_get_role crud role_id s), log @ [Call_get_role role_id]))
   \<and> get_role_by_name (logged crud) name (s, log) =
       (fst (get_role_by_name crud name s),
        (snd (crud_get_role_by_name crud name s), log @ [Call_get_role_by_name name]))
   \<and> get_all_roles (logged crud) (s, log) =
       (fst (get_all_roles crud s),
        (snd (crud_get_all_roles crud s), log @ [Call_get_all_roles]))"
  by (simp add: create_role_def get_role_def get_role_by_name_def get_all_roles_def
           split: prod.splits sum.splits)

theorem one_delegated_call_per_request_witness:
  "snd (create_role (logged mem_db) \<lparr>role_name = ''admin'', level = 1\<rparr> ([], [])) =
     ([entity 1 ''admin'' 1], [Call_create_role ''admin'' 1])
   \<and> snd (get_role (logged mem_db) 1 ([entity 1 ''admin'' 1], [])) =
       ([entity 1 ''admin'' 1], [Call_get_role 1])
   \<and> snd (get_role_by_name (logged mem_db) ''admin'' ([entity 1 ''admin'' 1], [])) =
       ([entity 1 ''admin'' 1], [Call_get_role_by_name ''admin''])
   \<and> snd (get_all_roles (logged mem_db) ([entity 1 ''admin'' 1], [])) =
       ([entity 1 ''admin'' 1], [Call_get_all_roles])"
  using one_delegated_call_per_request
          [of mem_db "\<lparr>role_name = ''admin'', level = 1\<rparr>" "[]" "[]"]
        one_delegated_call_per_request
          [of mem_db _ "[entity 1 ''admin'' 1]" "[]" 1 "''admin''"]
  by simp

section \<open>The response model\<close>

text \<open>
  Claim C10. A 200 answer of the create route or of either lookup route is a JSON
  object with exactly the fields \<open>id\<close>, \<open>role_name\<close> and \<open>level\<close>, and a 200 answer
  of the list route is a list of such objects, whatever other attributes the
  collaborator's entities carry. An entity that lacks one of the three fields is not
  sent as a success, alone or as an element of the list.
\<close>

theorem success_body_has_exactly_three_fields:
  "(fst (POST_roles C crud body s) = Response 200 b1 \<longrightarrow>
      (\<exists>i n l. b1 = PyDict [(''id'', PyInt i), (''role_name'', PyStr n), (''level'', PyInt l)]))
   \<and> (fst (GET_roles_id C crud role_id s) = Response 200 b2 \<longrightarrow>
      (\<exists>i n l. b2 = PyDict [(''id'', PyInt i), (''role_name'', PyStr n), (''level'', PyInt l)]))
   \<and> (fst (GET_roles_name C crud name s) = Response 200 b3 \<longrightarrow>
      (\<exists>i n l. b3 = PyDict [(''id'', PyInt i), (''role_name'', PyStr n), (''level'', PyInt l)]))
   \<and> (fst (GET_roles C crud s) = Response 200 b4 \<longrightarrow>
      (\<exists>bs. b4 = PyList bs \<and>
         (\<forall>x \<in> set bs. \<exists>i n l.
            x = PyDict [(''id'', PyInt i), (''role_name'', PyStr n), (''level'', PyInt l)])))
   \<and> (get_field v ''id'' = None \<or> get_field v ''role_name'' = None \<or> get_field v ''level'' = None \<longrightarrow>
      serialize_role C (Returned v) = ServerError ResponseValidationError
      \<and> serialize_roles C (Returned (PyList (vs @ v # ws))) = ServerError ResponseValidationError)"
proof (intro conjI impI)
  assume "fst (POST_roles C crud body s) = Response 200 b1"
  then have "\<exists>role. serialize_role C (fst (create_role crud role s)) = Response 200 b1"
    by (rule POST_roles_200)
  then obtain role where "serialize_role C (fst (create_role crud role s)) = Response 200 b1" ..
  then show "\<exists>i n l. b1 = PyDict [(''id'', PyInt i), (''role_name'', PyStr n), (''level'', PyInt l)]"
    using serialize_role_200 [of C "fst (create_role crud role s)" b1]
          create_role_not_200 [of crud role s]
    by blast
next
  assume "fst (GET_roles_id C crud role_id s) = Response 200 b2"
  then have "serialize_role C (fst (get_role crud role_id s)) = Response 200 b2"
    by (simp add: GET_roles_id_def split: prod.splits)
  then show "\<exists>i n l. b2 = PyDict [(''id'', PyInt i), (''role_name'', PyStr n), (''level'', PyInt l)]"
    using serialize_role_200 [of C "fst (get_role crud role_id s)" b2]
          get_role_not_200 [of crud role_id s]
    by blast
next
  assume "fst (GET_roles_name C crud name s) = Response 200 b3"
  then have "serialize_role C (fst (get_role_by_name crud name s)) = Response 200 b3"
    by (simp add: GET_roles_name_def split: prod.splits)
  then show "\<exists>i n l. b3 = PyDict [(''id'', PyInt i), (''role_name'', PyStr n), (''level'', PyInt l)]"
    using serialize_role_200 [of C "fst (get_role_by_name crud name s)" b3]
          get_role_by_name_not_200 [of crud name s]
    by blast
next
  assume "fst (GET_roles C crud s) = Response 200 b4"
  then have "serialize_roles C (fst (get_all_roles crud s)) = Response 200 b4"
    by (simp add: GET_roles_def split: prod.splits)
  then obtain rs where "b4 = PyList (map jsonable rs)"
    using serialize_roles_200 [of C "fst (get_all_roles crud s)" b4]
          get_all_roles_not_http [of crud s 200]
    by blast
  then show "\<exists>bs. b4 = PyList bs \<and>
         (\<forall>x \<in> set bs. \<exists>i n l.
            x = PyDict [(''id'', PyInt i), (''role_name'', PyStr n), (''level'', PyInt l)])"
    by (auto simp: jsonable_def)
next
  assume m: "get_field v ''id'' = None \<or> get_field v ''role_name'' = None \<or> get_field v ''level'' = None"
  then have n: "RoleResponse_validate C v = None"
    by (auto simp: RoleResponse_validate_def split: option.splits)
  then show "serialize_role C (Returned v) = ServerError ResponseValidationError"
    by (simp add: serialize_role_def)
  from n show "serialize_roles C (Returned (PyList (vs @ v # ws))) = ServerError ResponseValidationError"
    by (simp add: serialize_roles_def)
qed

theorem success_body_has_exactly_three_fields_witness:
  "fst (POST_roles strict mem_db
          (PyDict [(''role_name'', PyStr ''guest''), (''level'', PyInt 0)]) [entity 1 ''admin'' 1]) =
     Response 200 (PyDict [(''id'', PyInt 2), (''role_name'', PyStr ''guest''), (''level'', PyInt 0)])
   \<and> fst (GET_roles_id strict mem_db 1 [entity 1 ''admin'' 1]) =
       Response 200 (PyDict [(''id'', PyInt 1), (''role_name'', PyStr ''admin''), (''level'', PyInt 1)])
   \<and> fst (GET_roles_name strict mem_db ''admin'' [entity 1 ''admin'' 1]) =
       Response 200 (PyDict [(''id'', PyInt 1), (''role_name'', PyStr ''admin''), (''level'', PyInt 1)])
   \<and> fst (GET_roles strict mem_db [entity 1 ''admin'' 1]) =
       Response 200
         (PyList [PyDict [(''id'', PyInt 1), (''role_name'', PyStr ''admin''), (''level'', PyInt 1)]])
   \<and> get_field (PyObject ''RoleHierarchy'' True [(''id'', PyInt 3), (''role_name'', PyStr ''x'')])
         ''level'' = None
   \<and> serialize_role strict
         (Returned (PyObject ''RoleHierarchy'' True [(''id'', PyInt 3), (''role_name'', PyStr ''x'')])) =
       ServerError ResponseValidationError
   \<and> serialize_roles strict
         (Returned (PyList ([entity 1 ''admin'' 1] @
            PyObject ''RoleHierarchy'' True [(''id'', PyInt 3), (''role_name'', PyStr ''x'')] # []))) =
       ServerError ResponseValidationError"
proof -
  have p: "fst (POST_roles strict mem_db
          (PyDict [(''role_name'', PyStr ''guest''), (''level'', PyInt 0)]) [entity 1 ''admin'' 1]) =
     Response 200 (PyDict [(''id'', PyInt 2), (''role_name'', PyStr ''guest''), (''level'', PyInt 0)])"
    by (simp add: POST_roles_def create_role_def serialize_role_def jsonable_def)
  have g: "fst (GET_roles_id strict mem_db 1 [entity 1 ''admin'' 1]) =
       Response 200 (PyDict [(''id'', PyInt 1), (''role_name'', PyStr ''admin''), (''level'', PyInt 1)])"
    by (simp add: GET_roles_id_def get_role_def or_none_def serialize_role_def jsonable_def)
  have n: "fst (GET_roles_name strict mem_db ''admin'' [entity 1 ''admin'' 1]) =
       Response 200 (PyDict [(''id'', PyInt 1), (''role_name'', PyStr ''admin''), (''level'', PyInt 1)])"
    by (simp add: GET_roles_name_def get_role_by_name_def or_none_def serialize_role_def jsonable_def)
  have a: "fst (GET_roles strict mem_db [entity 1 ''admin'' 1]) =
       Response 200
         (PyList [PyDict [(''id'', PyInt 1), (''role_name'', PyStr ''admin''), (''level'', PyInt 1)]])"
    by (simp add: GET_roles_def get_all_roles_def serialize_roles_def jsonable_def)
  have m: "get_field (PyObject ''RoleHierarchy'' True [(''id'', PyInt 3), (''role_name'', PyStr ''x'')])
         ''level'' = None"
    by simp
  show ?thesis
    using success_body_has_exactly_three_fields
            [where C = strict and crud = mem_db and s = "[entity 1 ''admin'' 1]"
               and body = "PyDict [(''role_name'', PyStr ''guest''), (''level'', PyInt 0)]"
               and role_id = 1 and name = "''admin''"
               and ?b1.0 = "PyDict [(''id'', PyInt 2), (''role_name'', PyStr ''guest''), (''level'', PyInt 0)]"
               and ?b2.0 = "PyDict [(''id'', PyInt 1), (''role_name'', PyStr ''admin''), (''level'', PyInt 1)]"
               and ?b3.0 = "PyDict [(''id'', PyInt 1), (''role_name'', PyStr ''admin''), (''level'', PyInt 1)]"
               and ?b4.0 = "PyList [PyDict [(''id'', PyInt 1), (''role_name'', PyStr ''admin''), (''level'', PyInt 1)]]"
               and v = "PyObject ''RoleHierarchy'' True [(''id'', PyInt 3), (''role_name'', PyStr ''x'')]"
               and vs = "[entity 1 ''admin'' 1]" and ws = "[]"]
          p g n a m
    by simp
qed

end
